theory Spec2Isabelle
  imports Complex_Main "HOL-Library.Multiset" "HOL-Library.Finite_Map"
begin

section \<open>JavaScript values\<close>

text \<open>
  The fields \<open>userid\<close>, \<open>csrf\<close>, \<open>authority\<close> and \<open>grantToken\<close> are optional strings:
  a property that is missing reads as \<open>undefined\<close>, JSON may carry \<open>null\<close>.
\<close>

datatype jsstr = Undefined | Null | Str string

text \<open>JavaScript's conversion to a boolean: the empty string is falsy too.\<close>

fun truthy :: "jsstr \<Rightarrow> bool" where
  "truthy (Str s) = (s \<noteq> [])"
| "truthy Undefined = False"
| "truthy Null = False"

text \<open>
  Other JSON data (groups, errors, reason, flash messages, further fields). An array is
  a sequence; an object is a finite map from its keys, so that two objects with the same
  properties are the same value, in whatever order the keys were written.
\<close>

datatype json =
    JNull
  | JBool bool
  | JNum int
  | JStr string
  | JArr "json list"
  | JObj "(string, json) fmap"

text \<open>
  The variable \<open>lastLoadTime\<close>: declared without a value, assigned \<open>Date.now()\<close>
  (integer milliseconds) or \<open>null\<close>.
\<close>

datatype jstime = TUndefined | TNull | TNum int

datatype error = Error string | HttpError int

section \<open>The session model and the response envelope\<close>

text \<open>
  The session object. The source reads \<open>userid\<close>, \<open>csrf\<close> and \<open>groups\<close> and writes
  \<open>errors\<close> and \<open>reason\<close>; every other property travels in \<open>rest\<close>. \<open>None\<close> is a
  property that is \<open>undefined\<close>.
\<close>

record session_model =
  userid :: jsstr
  csrf :: jsstr
  groups :: "json option"
  errors :: "json option"
  reason :: "json option"
  rest :: "(string, json) fmap"

text \<open>The object literal \<open>{}\<close>.\<close>

definition empty_model :: session_model where
  "empty_model =
     \<lparr>userid = Undefined, csrf = Undefined, groups = None, errors = None,
      reason = None, rest = fmempty\<rparr>"

text \<open>
  The parsed response body \<open>{model, errors?, reason?, flash?}\<close>. \<open>data_model\<close> is
  \<open>None\<close> when \<open>data.model\<close> is missing or falsy; \<open>data_flash\<close> lists the own
  properties of \<open>data.flash\<close> in enumeration order (empty when there is no \<open>flash\<close>).
\<close>

record envelope =
  data_model :: "session_model option"
  data_errors :: "json option"
  data_reason :: "json option"
  data_flash :: "(string \<times> json list) list"

section \<open>Configuration and collaborators\<close>

record service =
  service_authority :: jsstr
  service_grantToken :: jsstr

text \<open>
  \<open>settings.services\<close> is \<open>None\<close> when it is not an array;
  \<open>xsrfHeaderName\<close> is \<open>$http.defaults.xsrfHeaderName\<close>.
\<close>

record config =
  services :: "service list option"
  xsrfHeaderName :: string

datatype fetch_source = ProfileRead jsstr | ResourceLoad

text \<open>
  Calls into the collaborators, in the order they are made. \<open>Fetch src p\<close> is the
  retried operation started by \<open>load\<close>, whose promise chain is the task \<open>p\<close>.
\<close>

datatype effect =
    Fetch fetch_source nat
  | UserChanged bool jsstr
  | GroupsChanged bool
  | ClearCache
  | SetUserInfo "jsstr option"
  | Flash string json

section \<open>The session service\<close>

text \<open>
  The variables of the closure (\<open>headers\<close>, \<open>lastLoad\<close>, \<open>lastLoadTime\<close>), the session
  held by \<open>annotationUI\<close>, and the promises created so far: a promise is a number,
  \<open>settled\<close> gives its outcome once it has one.
\<close>

record state =
  headers :: "string \<rightharpoonup> jsstr"
  lastLoad :: "nat option"
  lastLoadTime :: jstime
  session :: session_model
  settled :: "nat \<rightharpoonup> error + session_model"
  next_task :: nat
  effects :: "effect list"

definition CACHE_TTL :: int where
  "CACHE_TTL = 5 * 60 * 1000"

definition getAuthority :: "config \<Rightarrow> jsstr" where
  "getAuthority cfg =
     (case services cfg of
        Some (sv # _) \<Rightarrow> service_authority sv
      | _ \<Rightarrow> Null)"

text \<open>
  The test \<open>!lastLoadTime || (Date.now() - lastLoadTime) > CACHE_TTL\<close> by cases on
  the value of \<open>lastLoadTime\<close>: \<open>undefined\<close>, \<open>null\<close> and \<open>0\<close> are falsy.
\<close>

fun stale :: "int \<Rightarrow> jstime \<Rightarrow> bool" where
  "stale now (TNum t) = (t = 0 \<or> now - t > CACHE_TTL)"
| "stale now TUndefined = True"
| "stale now TNull = True"

text \<open>
  \<open>resource.load\<close>. \<open>now\<close> is the reading of \<open>Date.now()\<close> in the test, \<open>now'\<close> the
  reading stored before the fetch starts. The result is the value of \<open>lastLoad\<close>.
\<close>

definition load :: "config \<Rightarrow> int \<Rightarrow> int \<Rightarrow> state \<Rightarrow> nat option \<times> state" where
  "load cfg now now' s =
     (if stale now (lastLoadTime s) then
        let authority = getAuthority cfg;
            src = (if truthy authority then ProfileRead authority else ResourceLoad);
            p = next_task s;
            s' = s\<lparr>lastLoadTime := TNum now',
                   lastLoad := Some p,
                   next_task := Suc p,
                   effects := effects s @ [Fetch src p]\<rparr>
        in (lastLoad s', s')
      else (lastLoad s, s))"

text \<open>The handler \<open>.then(function (session) {...})\<close> of the task \<open>p\<close>.\<close>

definition load_then :: "nat \<Rightarrow> session_model \<Rightarrow> int \<Rightarrow> state \<Rightarrow> state" where
  "load_then p sess now s =
     s\<lparr>lastLoadTime := TNum now, settled := (settled s)(p \<mapsto> Inr sess)\<rparr>"

text \<open>The handler \<open>.catch(function (err) {...})\<close> of the task \<open>p\<close>; it rethrows.\<close>

definition load_catch :: "nat \<Rightarrow> error \<Rightarrow> state \<Rightarrow> state" where
  "load_catch p err s =
     s\<lparr>lastLoadTime := TNull, settled := (settled s)(p \<mapsto> Inl err)\<rparr>"

text \<open>
  Modelled from the spec: \<open>annotationUI.updateSession\<close>, which lives outside this file,
  writes the model into the shared state store and replaces the previous value wholesale.
\<close>

definition updateSession :: "session_model \<Rightarrow> state \<Rightarrow> state" where
  "updateSession model s = s\<lparr>session := model\<rparr>"

text \<open>
  Modelled from the spec: \<open>angular.equals\<close>, a library function, is deep value equality,
  order-sensitive on sequences. On \<open>json\<close> that is equality: arrays are compared element
  by element in order, objects property by property whatever the order of their keys.
\<close>

definition angular_equals :: "json option \<Rightarrow> json option \<Rightarrow> bool" where
  "angular_equals a b = (a = b)"

text \<open>The block \<open>if (userChanged) {...}\<close> of \<open>update\<close>.\<close>

definition user_changed_effects :: "config \<Rightarrow> bool \<Rightarrow> session_model \<Rightarrow> effect list" where
  "user_changed_effects cfg isInitialLoad model =
     (if \<not> truthy (getAuthority cfg) then [ClearCache] else [])
     @ [UserChanged isInitialLoad (userid model)]
     @ (if truthy (userid model) then [SetUserInfo (Some (userid model))]
        else [SetUserInfo None])"

text \<open>\<open>update(model)\<close>, with the reading \<open>now\<close> of \<open>Date.now()\<close>.\<close>

definition update :: "config \<Rightarrow> int \<Rightarrow> session_model \<Rightarrow> state \<Rightarrow> session_model \<times> state" where
  "update cfg now model s =
     (let prevSession = session s;
          isInitialLoad = \<not> truthy (csrf prevSession);
          userChanged = (userid model \<noteq> userid prevSession);
          groupsChanged = \<not> angular_equals (groups model) (groups prevSession);
          s1 = updateSession model s;
          s2 = (if truthy (csrf model)
                then s1\<lparr>headers := (headers s1)(xsrfHeaderName cfg \<mapsto> csrf model)\<rparr>
                else s1);
          p = next_task s2;
          s3 = s2\<lparr>lastLoad := Some p,
                  settled := (settled s2)(p \<mapsto> Inr model),
                  next_task := Suc p,
                  lastLoadTime := TNum now\<rparr>;
          s4 = (if userChanged
                then s3\<lparr>effects := effects s3 @ user_changed_effects cfg isInitialLoad model\<rparr>
                else s3);
          s5 = (if groupsChanged
                then s4\<lparr>effects := effects s4 @ [GroupsChanged isInitialLoad]\<rparr>
                else s4)
      in (model, s5))"

text \<open>The two loops of \<open>process\<close> that fire the flash messages.\<close>

primrec fire_msgs :: "string \<Rightarrow> json list \<Rightarrow> state \<Rightarrow> state" where
  "fire_msgs type [] s = s"
| "fire_msgs type (msg # msgs) s =
     fire_msgs type msgs (s\<lparr>effects := effects s @ [Flash type msg]\<rparr>)"

primrec fire_flash :: "(string \<times> json list) list \<Rightarrow> state \<Rightarrow> state" where
  "fire_flash [] s = s"
| "fire_flash (entry # entries) s =
     fire_flash entries (fire_msgs (fst entry) (snd entry) s)"

text \<open>The model that \<open>process\<close> lifts out of the response data.\<close>

definition lift_model :: "envelope \<Rightarrow> session_model" where
  "lift_model data =
     (let model = (case data_model data of Some m \<Rightarrow> m | None \<Rightarrow> empty_model);
          model1 = (case data_errors data of
                      Some e \<Rightarrow> model\<lparr>errors := Some e\<rparr>
                    | None \<Rightarrow> model);
          model2 = (case data_reason data of
                      Some r \<Rightarrow> model1\<lparr>reason := Some r\<rparr>
                    | None \<Rightarrow> model1)
      in model2)"

text \<open>
  \<open>process(data, headersGetter, status)\<close>, on the data that \<open>angular.fromJson\<close> has
  parsed. \<open>None\<close> is the result \<open>null\<close>.
\<close>

definition process ::
  "config \<Rightarrow> envelope \<Rightarrow> int \<Rightarrow> int \<Rightarrow> state \<Rightarrow> session_model option \<times> state" where
  "process cfg data status now s =
     (if status < 200 \<or> status \<ge> 500 then (None, s)
      else
        let model = lift_model data;
            s1 = fire_flash (data_flash data) s;
            r = update cfg now model s1
        in (Some (fst r), snd r))"

text \<open>The two handlers of \<open>logout\<close>; the second rethrows \<open>err\<close>.\<close>

definition logout_then :: "state \<Rightarrow> state" where
  "logout_then s = s\<lparr>effects := effects s @ [ClearCache]\<rparr>"

definition logout_catch :: "error \<Rightarrow> state \<Rightarrow> (error + unit) \<times> state" where
  "logout_catch err s =
     (Inl err, s\<lparr>effects := effects s @ [Flash ''error'' (JStr ''Log out failed'')]\<rparr>)"


text \<open>The request of \<open>logout\<close> fails, or succeeds, with the response \<open>data\<close>, \<open>status\<close>.\<close>

definition logout_fails ::
  "config \<Rightarrow> envelope \<Rightarrow> int \<Rightarrow> int \<Rightarrow> error \<Rightarrow> state \<Rightarrow> (error + unit) \<times> state" where
  "logout_fails cfg data status now err s =
     logout_catch err (snd (process cfg data status now s))"

definition logout_succeeds :: "config \<Rightarrow> envelope \<Rightarrow> int \<Rightarrow> int \<Rightarrow> state \<Rightarrow> state" where
  "logout_succeeds cfg data status now s =
     logout_then (snd (process cfg data status now s))"

text \<open>The fetches that \<open>load\<close> has started.\<close>

fun is_fetch :: "effect \<Rightarrow> bool" where
  "is_fetch (Fetch src p) = True"
| "is_fetch (UserChanged i u) = False"
| "is_fetch (GroupsChanged i) = False"
| "is_fetch ClearCache = False"
| "is_fetch (SetUserInfo u) = False"
| "is_fetch (Flash k m) = False"

definition fetches :: "state \<Rightarrow> nat" where
  "fetches s = length (filter is_fetch (effects s))"

text \<open>The tasks of those fetches that have not settled.\<close>

fun fetch_tasks :: "effect list \<Rightarrow> nat list" where
  "fetch_tasks [] = []"
| "fetch_tasks (Fetch src p # es) = p # fetch_tasks es"
| "fetch_tasks (e # es) = fetch_tasks es"

definition in_flight :: "state \<Rightarrow> nat list" where
  "in_flight s = filter (\<lambda>p. settled s p = None) (fetch_tasks (effects s))"

text \<open>
  A run of \<open>load()\<close> calls with nothing in between, each with its two clock readings;
  the result lists the task every call received.
\<close>

fun load_calls :: "config \<Rightarrow> (int \<times> int) list \<Rightarrow> state \<Rightarrow> nat option list \<times> state" where
  "load_calls cfg [] s = ([], s)"
| "load_calls cfg (c # cs) s =
     (let r = load cfg (fst c) (snd c) s;
          rs = load_calls cfg cs (snd r)
      in (fst r # fst rs, snd rs))"

text \<open>What a call added to the log of effects.\<close>

definition emitted :: "state \<Rightarrow> state \<Rightarrow> effect list" where
  "emitted s s' = drop (length (effects s)) (effects s')"

fun is_user_changed :: "effect \<Rightarrow> bool" where
  "is_user_changed (UserChanged i u) = True"
| "is_user_changed (Fetch src p) = False"
| "is_user_changed (GroupsChanged i) = False"
| "is_user_changed ClearCache = False"
| "is_user_changed (SetUserInfo u) = False"
| "is_user_changed (Flash k m) = False"

fun is_groups_changed :: "effect \<Rightarrow> bool" where
  "is_groups_changed (GroupsChanged i) = True"
| "is_groups_changed (Fetch src p) = False"
| "is_groups_changed (UserChanged i u) = False"
| "is_groups_changed ClearCache = False"
| "is_groups_changed (SetUserInfo u) = False"
| "is_groups_changed (Flash k m) = False"

text \<open>
  Everything that runs inside the service: the calls of \<open>load\<close> and \<open>update\<close>
  (\<open>dismissSidebarTutorial\<close> ends in \<open>update\<close>), the handlers of a fetch, the processing
  of a response of \<open>login\<close>, \<open>logout\<close> or \<open>_load\<close>, and the handlers of \<open>logout\<close>.
\<close>

datatype op =
    Load int int
  | LoadThen nat session_model int
  | LoadCatch nat error
  | Update int session_model
  | Process envelope int int
  | LogoutThen
  | LogoutCatch error

fun step :: "config \<Rightarrow> op \<Rightarrow> state \<Rightarrow> state" where
  "step cfg (Load now now') s = snd (load cfg now now' s)"
| "step cfg (LoadThen p sess now) s = load_then p sess now s"
| "step cfg (LoadCatch p err) s = load_catch p err s"
| "step cfg (Update now model) s = snd (update cfg now model s)"
| "step cfg (Process data status now) s = snd (process cfg data status now s)"
| "step cfg LogoutThen s = logout_then s"
| "step cfg (LogoutCatch err) s = snd (logout_catch err s)"

fun run :: "config \<Rightarrow> op list \<Rightarrow> state \<Rightarrow> state" where
  "run cfg [] s = s"
| "run cfg (x # xs) s = run cfg xs (step cfg x s)"

text \<open>The service as it is created, over the session that \<open>annotationUI\<close> holds.\<close>

definition init :: "session_model \<Rightarrow> state" where
  "init sess =
     \<lparr>headers = Map.empty, lastLoad = None, lastLoadTime = TUndefined, session = sess,
      settled = Map.empty, next_task = 0, effects = []\<rparr>"

section \<open>The auth service\<close>

text \<open>
  \<open>performance.now()\<close> and the lifetime the server reports are finite doubles, that is,
  certain real numbers; comparing two of them is exact. The result of an addition or a
  multiplication of doubles is the exact result rounded to a double: the rounding \<open>fl\<close>
  is a parameter of the functions that compute, and nothing is assumed of it.
\<close>

record token_info =
  access_token :: string
  expires_in :: real

record cached_token =
  token :: string
  expiresAt :: real

text \<open>
  The variable \<open>cachedToken\<close> (\<open>None\<close> while it is \<open>undefined\<close>), and the number of
  requests that \<open>$http.post\<close> has sent to the token endpoint.
\<close>

record auth_state =
  cachedToken :: "cached_token option"
  posts :: nat

definition grantToken :: "config \<Rightarrow> jsstr" where
  "grantToken cfg =
     (case services cfg of
        Some (sv # _) \<Rightarrow> service_grantToken sv
      | _ \<Rightarrow> Undefined)"

text \<open>What \<open>$http.post\<close> settles with: a rejection, or a response with status and data.\<close>

datatype http_result = Rejected error | Response int token_info

text \<open>The handler \<open>.then(function (response) {...})\<close> in \<open>exchangeToken\<close>.\<close>

definition exchangeToken_then :: "int \<Rightarrow> token_info \<Rightarrow> error + token_info" where
  "exchangeToken_then status data =
     (if status \<noteq> 200 then Inl (Error ''Failed to retrieve access token'')
      else Inr data)"

text \<open>The promise that \<open>exchangeToken\<close> returns: a rejection passes the handler by.\<close>

definition exchangeToken_result :: "http_result \<Rightarrow> error + token_info" where
  "exchangeToken_result res =
     (case res of
        Rejected err \<Rightarrow> Inl err
      | Response status data \<Rightarrow> exchangeToken_then status data)"

text \<open>
  What \<open>tokenGetter\<close> returns: a resolved promise (\<open>None\<close> is \<open>null\<close>), or the promise
  of an exchange that started at \<open>refreshStart\<close>.
\<close>

datatype token_task = Resolved "string option" | Exchanging real

text \<open>The branches \<open>else if (grantToken) {...} else {...}\<close>.\<close>

definition tokenGetter_else :: "config \<Rightarrow> real \<Rightarrow> auth_state \<Rightarrow> token_task \<times> auth_state" where
  "tokenGetter_else cfg now' a =
     (if truthy (grantToken cfg)
      then (let refreshStart = now' in (Exchanging refreshStart, a\<lparr>posts := Suc (posts a)\<rparr>))
      else (Resolved None, a))"

text \<open>
  \<open>tokenGetter\<close>: \<open>now\<close> is the reading of \<open>performance.now()\<close> in the test,
  \<open>now'\<close> the reading taken as \<open>refreshStart\<close>.
\<close>

definition tokenGetter :: "config \<Rightarrow> real \<Rightarrow> real \<Rightarrow> auth_state \<Rightarrow> token_task \<times> auth_state" where
  "tokenGetter cfg now now' a =
     (case cachedToken a of
        Some c \<Rightarrow>
          if expiresAt c > now then (Resolved (Some (token c)), a)
          else tokenGetter_else cfg now' a
      | None \<Rightarrow> tokenGetter_else cfg now' a)"

text \<open>The handler \<open>.then(function (tokenInfo) {...})\<close> in \<open>tokenGetter\<close>.\<close>

definition tokenGetter_then ::
  "(real \<Rightarrow> real) \<Rightarrow> real \<Rightarrow> token_info \<Rightarrow> auth_state \<Rightarrow> string \<times> auth_state" where
  "tokenGetter_then fl refreshStart tokenInfo a =
     (let c = \<lparr>token = access_token tokenInfo,
               expiresAt = fl (refreshStart + fl (expires_in tokenInfo * 1000))\<rparr>
      in (token c, a\<lparr>cachedToken := Some c\<rparr>))"

text \<open>The promise of an exchange settles: what the caller gets, and the state after.\<close>

definition exchange_settle ::
  "(real \<Rightarrow> real) \<Rightarrow> real \<Rightarrow> http_result \<Rightarrow> auth_state \<Rightarrow> (error + string) \<times> auth_state" where
  "exchange_settle fl refreshStart res a =
     (case exchangeToken_result res of
        Inl err \<Rightarrow> (Inl err, a)
      | Inr tokenInfo \<Rightarrow>
          (let r = tokenGetter_then fl refreshStart tokenInfo a in (Inr (fst r), snd r)))"

definition clearCache :: "auth_state \<Rightarrow> auth_state" where
  "clearCache a = a"

section \<open>Example configurations and states\<close>

text \<open>No service is configured: the session endpoint is used, and there is no grant token.\<close>

definition local_config :: config where
  "local_config = \<lparr>services = None, xsrfHeaderName = ''X-CSRF-Token''\<rparr>"

text \<open>A publisher account with an authority and a grant token.\<close>

definition publisher_config :: config where
  "publisher_config =
     \<lparr>services = Some [\<lparr>service_authority = Str ''partner.org'',
                         service_grantToken = Str ''grant''\<rparr>],
      xsrfHeaderName = ''X-CSRF-Token''\<rparr>"

text \<open>A session loaded at time 1000: its promise is the task 0.\<close>

definition warm_state :: state where
  "warm_state =
     (init empty_model)\<lparr>lastLoad := Some 0, lastLoadTime := TNum 1000,
                         settled := [0 \<mapsto> Inr empty_model], next_task := 1\<rparr>"

text \<open>A session of the user \<open>acct:u1\<close> with a CSRF token and two groups.\<close>

definition u1_model :: session_model where
  "u1_model =
     \<lparr>userid = Str ''acct:u1'', csrf = Str ''t0k3n'',
      groups = Some (JArr [JStr ''g1'', JStr ''g2'']), errors = None, reason = None,
      rest = fmempty\<rparr>"

text \<open>The same group, written with its keys in two orders.\<close>

definition group_a :: json where
  "group_a = JObj (fmap_of_list [(''id'', JStr ''g1''), (''name'', JStr ''One'')])"

definition group_a' :: json where
  "group_a' = JObj (fmap_of_list [(''name'', JStr ''One''), (''id'', JStr ''g1'')])"


text \<open>
  The response \<open>{model: {userid: "u1"}, flash: {error: ["bad thing"]}}\<close>, and one with
  two kinds of notices.
\<close>

definition flash_response :: envelope where
  "flash_response =
     \<lparr>data_model = Some (empty_model\<lparr>userid := Str ''u1''\<rparr>), data_errors = None,
      data_reason = None, data_flash = [(''error'', [JStr ''bad thing''])]\<rparr>"

definition login_failed_response :: envelope where
  "login_failed_response =
     \<lparr>data_model = None,
      data_errors = Some (JObj (fmap_of_list [(''password'', JStr ''Wrong password'')])),
      data_reason = Some (JStr ''Invalid''),
      data_flash = [(''error'', [JStr ''a'', JStr ''b'']), (''info'', [JStr ''c''])]\<rparr>"

text \<open>The service after \<open>update\<close> has stored the session of \<open>acct:u1\<close> at time 7.\<close>

definition u1_state :: state where
  "u1_state = snd (update local_config 7 u1_model (init empty_model))"

text \<open>The auth service as it is created, and a token that lives 60 seconds.\<close>

definition auth_init :: auth_state where
  "auth_init = \<lparr>cachedToken = None, posts = 0\<rparr>"

definition minute_token :: token_info where
  "minute_token = \<lparr>access_token = ''abc'', expires_in = 60\<rparr>"

text \<open>
  The rounding to the nearest double, ties to even, for results between 32768 and 65536,
  where the doubles are the multiples of \<open>1 / 2 ^ 37\<close>; elsewhere the examples do not
  use it, and it is the identity.
\<close>

definition round_even :: "real \<Rightarrow> int" where
  "round_even x =
     (if x - of_int \<lfloor>x\<rfloor> < 1 / 2 then \<lfloor>x\<rfloor>
      else if x - of_int \<lfloor>x\<rfloor> > 1 / 2 then \<lfloor>x\<rfloor> + 1
      else if even \<lfloor>x\<rfloor> then \<lfloor>x\<rfloor> else \<lfloor>x\<rfloor> + 1)"

definition fl_example :: "real \<Rightarrow> real" where
  "fl_example x =
     (if 32768 \<le> x \<and> x < 65536 then of_int (round_even (x * 2 ^ 37)) / 2 ^ 37 else x)"

section \<open>The cache of \<open>load\<close>\<close>

lemma update_lastLoadTime: "lastLoadTime (snd (update cfg now model s)) = TNum now"
  by (simp add: update_def updateSession_def Let_def)

lemma fire_msgs_lastLoadTime: "lastLoadTime (fire_msgs k ms s) = lastLoadTime s"
  by (induction ms arbitrary: s) simp_all

lemma fire_flash_lastLoadTime: "lastLoadTime (fire_flash fl s) = lastLoadTime s"
  by (induction fl arbitrary: s) (simp_all add: fire_msgs_lastLoadTime)

text \<open>
  Claim C1. A \<open>load()\<close> call made while a timestamp is recorded and at most 300000 ms
  have passed since it returns the cached task and changes nothing, so no fetch starts.
  A fetch starts only when no timestamp is recorded or more than 300000 ms have passed.
  Every \<open>update()\<close>, also the one at the end of the processing of a response of
  \<open>login\<close>, \<open>logout\<close> or \<open>_load\<close>, stores the current time as the timestamp.
  The source tests \<open>!lastLoadTime\<close>: a timestamp is recorded when \<open>lastLoadTime\<close>
  is a number other than 0.
\<close>

theorem load_cache_ttl:
  "(lastLoadTime s = TNum t \<and> t \<noteq> 0 \<and> now - t \<le> 300000
      \<longrightarrow> load cfg now now' s = (lastLoad s, s))
   \<and> (fetches (snd (load cfg now now' s)) \<noteq> fetches s
      \<longrightarrow> lastLoadTime s = TUndefined \<or> lastLoadTime s = TNull \<or> lastLoadTime s = TNum 0
          \<or> (\<exists>t'. lastLoadTime s = TNum t' \<and> now - t' > 300000))
   \<and> lastLoadTime (snd (update cfg now model s)) = TNum now
   \<and> (200 \<le> status \<and> status < 500
      \<longrightarrow> lastLoadTime (snd (process cfg data status now s)) = TNum now)"
proof -
  have hit: "load cfg now now' s = (lastLoad s, s)"
    if "lastLoadTime s = TNum t" "t \<noteq> 0" "now - t \<le> 300000"
    using that by (simp add: load_def CACHE_TTL_def)
  have miss: "lastLoadTime s = TUndefined \<or> lastLoadTime s = TNull \<or> lastLoadTime s = TNum 0
      \<or> (\<exists>t'. lastLoadTime s = TNum t' \<and> now - t' > 300000)"
    if "fetches (snd (load cfg now now' s)) \<noteq> fetches s"
  proof (cases "lastLoadTime s")
    case (TNum t')
    with that show ?thesis
      by (auto simp: load_def CACHE_TTL_def split: if_splits)
  qed simp_all
  have proc: "lastLoadTime (snd (process cfg data status now s)) = TNum now"
    if "200 \<le> status" "status < 500"
    using that by (simp add: process_def Let_def update_lastLoadTime)
  from hit miss proc show ?thesis
    by (simp add: update_lastLoadTime)
qed

theorem load_cache_ttl_witness:
  "load local_config 301000 301000 warm_state = (Some 0, warm_state)
   \<and> fetches (snd (load local_config 5 5 (init empty_model))) \<noteq> fetches (init empty_model)
   \<and> lastLoadTime (init empty_model) = TUndefined
   \<and> lastLoadTime
        (snd (process local_config
                \<lparr>data_model = None, data_errors = None, data_reason = None, data_flash = []\<rparr>
                200 7 warm_state)) = TNum 7"
proof -
  have a: "load local_config 301000 301000 warm_state = (Some 0, warm_state)"
    using load_cache_ttl [of warm_state 1000 301000 local_config 301000]
    by (simp add: warm_state_def init_def)
  have b: "fetches (snd (load local_config 5 5 (init empty_model))) \<noteq> fetches (init empty_model)"
    by (simp add: load_def fetches_def init_def Let_def)
  have c: "lastLoadTime (init empty_model) = TUndefined"
    using b load_cache_ttl [of "init empty_model" 0 5 local_config 5]
    by (simp add: init_def)
  have d: "lastLoadTime
        (snd (process local_config
                \<lparr>data_model = None, data_errors = None, data_reason = None, data_flash = []\<rparr>
                200 7 warm_state)) = TNum 7"
    using load_cache_ttl [of warm_state 0 7 local_config 7 empty_model 200]
    by simp
  from a b c d show ?thesis by simp
qed

section \<open>Single flight\<close>

lemma load_hit:
  "lastLoadTime s = TNum t \<Longrightarrow> t \<noteq> 0 \<Longrightarrow> now - t \<le> CACHE_TTL
   \<Longrightarrow> load cfg now now' s = (lastLoad s, s)"
  by (simp add: load_def)

lemma load_miss:
  "stale now (lastLoadTime s) \<Longrightarrow>
   load cfg now now' s =
     (Some (next_task s),
      s\<lparr>lastLoadTime := TNum now', lastLoad := Some (next_task s),
        next_task := Suc (next_task s),
        effects := effects s @
          [Fetch (if truthy (getAuthority cfg) then ProfileRead (getAuthority cfg)
                  else ResourceLoad) (next_task s)]\<rparr>)"
  by (simp add: load_def Let_def)

lemma load_calls_hits:
  "lastLoadTime s = TNum t \<Longrightarrow> t \<noteq> 0 \<Longrightarrow> \<forall>c \<in> set cs. fst c - t \<le> CACHE_TTL
   \<Longrightarrow> load_calls cfg cs s = (replicate (length cs) (lastLoad s), s)"
proof (induction cs)
  case Nil
  show ?case by simp
next
  case (Cons c cs)
  from Cons.prems have "load cfg (fst c) (snd c) s = (lastLoad s, s)"
    by (simp add: load_hit)
  with Cons show ?case by simp
qed

lemma fetch_tasks_append:
  "fetch_tasks (es @ [Fetch src p]) = fetch_tasks es @ [p]"
  by (induction es rule: fetch_tasks.induct) simp_all

lemma load_calls_single:
  assumes cold: "stale now (lastLoadTime s)"
    and stamp: "now' \<noteq> 0"
    and within: "\<forall>c \<in> set cs. fst c - now' \<le> CACHE_TTL"
  shows "load_calls cfg ((now, now') # cs) s
    = (replicate (Suc (length cs)) (Some (next_task s)), snd (load cfg now now' s))"
proof -
  have first: "fst (load cfg now now' s) = Some (next_task s)"
    using cold by (simp add: load_miss)
  have stamped: "lastLoadTime (snd (load cfg now now' s)) = TNum now'"
    and task: "lastLoad (snd (load cfg now now' s)) = Some (next_task s)"
    using cold by (simp_all add: load_miss)
  from stamped stamp within
  have later: "load_calls cfg cs (snd (load cfg now now' s))
      = (replicate (length cs) (lastLoad (snd (load cfg now now' s))), snd (load cfg now now' s))"
    by (rule load_calls_hits)
  show ?thesis
    by (simp add: Let_def first later task)
qed

lemma load_miss_fetches:
  "stale now (lastLoadTime s) \<Longrightarrow> fetches (snd (load cfg now now' s)) = Suc (fetches s)"
  by (simp add: load_miss fetches_def)

lemma load_miss_in_flight:
  "stale now (lastLoadTime s) \<Longrightarrow> settled s (next_task s) = None
   \<Longrightarrow> in_flight (snd (load cfg now now' s)) = in_flight s @ [next_task s]"
  by (simp add: load_miss in_flight_def fetch_tasks_append)

text \<open>
  Claim C2, as the source has it. \<open>load\<close> keeps no record of a pending fetch; it
  decides by the timestamp alone. When the first of a run of \<open>load()\<close> calls finds no
  warm cache and stores a timestamp other than 0, and every later call of the run is made
  at most 300000 ms after that timestamp, then exactly one fetch is started and every call
  receives the same task. A \<open>load()\<close> call made more than 300000 ms after the
  timestamp, whether or not the fetch that stored it is still pending, starts a fetch with
  a new task. In both cases the new task joins the fetches in flight, provided that its
  number has no outcome yet; in the first case it then is the only one in flight if none
  was before.
\<close>

theorem single_flight_within_ttl:
  "(stale now (lastLoadTime s) \<and> now' \<noteq> 0 \<and> (\<forall>c \<in> set cs. fst c - now' \<le> 300000) \<longrightarrow>
      fetches (snd (load_calls cfg ((now, now') # cs) s)) = Suc (fetches s)
      \<and> fst (load_calls cfg ((now, now') # cs) s)
          = replicate (Suc (length cs)) (Some (next_task s))
      \<and> (settled s (next_task s) = None \<longrightarrow>
           in_flight (snd (load_calls cfg ((now, now') # cs) s)) = in_flight s @ [next_task s])
      \<and> (settled s (next_task s) = None \<and> in_flight s = [] \<longrightarrow>
           in_flight (snd (load_calls cfg ((now, now') # cs) s)) = [next_task s]))
   \<and> (lastLoadTime s = TNum t \<and> now - t > 300000 \<longrightarrow>
      fst (load cfg now now' s) = Some (next_task s)
      \<and> fetches (snd (load cfg now now' s)) = Suc (fetches s)
      \<and> (settled s (next_task s) = None \<longrightarrow>
           in_flight (snd (load cfg now now' s)) = in_flight s @ [next_task s]))"
proof -
  have run: "fetches (snd (load_calls cfg ((now, now') # cs) s)) = Suc (fetches s)
      \<and> fst (load_calls cfg ((now, now') # cs) s)
          = replicate (Suc (length cs)) (Some (next_task s))
      \<and> (settled s (next_task s) = None \<longrightarrow>
           in_flight (snd (load_calls cfg ((now, now') # cs) s)) = in_flight s @ [next_task s])
      \<and> (settled s (next_task s) = None \<and> in_flight s = [] \<longrightarrow>
           in_flight (snd (load_calls cfg ((now, now') # cs) s)) = [next_task s])"
    if cold: "stale now (lastLoadTime s)" and stamp: "now' \<noteq> 0"
      and within: "\<forall>c \<in> set cs. fst c - now' \<le> 300000"
  proof -
    from within have "\<forall>c \<in> set cs. fst c - now' \<le> CACHE_TTL"
      by (simp add: CACHE_TTL_def)
    with cold stamp have all: "load_calls cfg ((now, now') # cs) s
        = (replicate (Suc (length cs)) (Some (next_task s)), snd (load cfg now now' s))"
      by (rule load_calls_single)
    show ?thesis
      unfolding all using cold by (simp add: load_miss_fetches load_miss_in_flight)
  qed
  have late: "fst (load cfg now now' s) = Some (next_task s)
      \<and> fetches (snd (load cfg now now' s)) = Suc (fetches s)
      \<and> (settled s (next_task s) = None \<longrightarrow>
           in_flight (snd (load cfg now now' s)) = in_flight s @ [next_task s])"
    if "lastLoadTime s = TNum t" and "now - t > 300000"
  proof -
    from that have old: "stale now (lastLoadTime s)"
      by (simp add: CACHE_TTL_def)
    then show ?thesis
      by (simp add: load_miss_fetches load_miss_in_flight) (simp add: load_miss)
  qed
  from run late show ?thesis
    by blast
qed

theorem single_flight_within_ttl_witness:
  "fetches (snd (load_calls local_config [(1, 1), (2, 2), (300001, 300001)] (init empty_model))) = 1
   \<and> fst (load_calls local_config [(1, 1), (2, 2), (300001, 300001)] (init empty_model))
       = [Some 0, Some 0, Some 0]
   \<and> in_flight (snd (load_calls local_config [(1, 1), (2, 2), (300001, 300001)]
        (init empty_model))) = [0]
   \<and> fst (load local_config 300002 300002 (snd (load local_config 1 1 (init empty_model))))
       = Some 1
   \<and> in_flight (snd (load local_config 300002 300002
        (snd (load local_config 1 1 (init empty_model))))) = [0, 1]"
proof -
  have cold: "stale 1 (lastLoadTime (init empty_model))"
    by (simp add: init_def)
  have stamp: "(1::int) \<noteq> 0"
    by simp
  have within: "\<forall>c \<in> set [(2, 2), (300001, 300001 :: int)]. fst c - 1 \<le> (300000::int)"
    by simp
  have idle: "in_flight (init empty_model) = []"
    by (simp add: in_flight_def init_def)
  have fresh: "settled (init empty_model) (next_task (init empty_model)) = None"
    by (simp add: init_def)
  have count: "fetches (init empty_model) = 0"
    by (simp add: fetches_def init_def)
  have nxt: "next_task (init empty_model) = 0"
    by (simp add: init_def)
  have a: "fetches (snd (load_calls local_config [(1, 1), (2, 2), (300001, 300001)]
        (init empty_model))) = 1
      \<and> fst (load_calls local_config [(1, 1), (2, 2), (300001, 300001)] (init empty_model))
          = [Some 0, Some 0, Some 0]
      \<and> in_flight (snd (load_calls local_config [(1, 1), (2, 2), (300001, 300001)]
          (init empty_model))) = [0]"
    using single_flight_within_ttl [of 1 "init empty_model" 1 "[(2, 2), (300001, 300001)]"
        local_config] cold stamp within idle fresh
    by (simp add: count nxt)
  define s1 where "s1 = snd (load local_config 1 1 (init empty_model))"
  have pending: "lastLoadTime s1 = TNum 1" and nxt1: "next_task s1 = 1"
    and fresh1: "settled s1 (next_task s1) = None" and fly1: "in_flight s1 = [0]"
    by (simp_all add: s1_def load_def Let_def init_def in_flight_def)
  have over: "(300002::int) - 1 > 300000"
    by simp
  have b: "fst (load local_config 300002 300002 s1) = Some 1
      \<and> in_flight (snd (load local_config 300002 300002 s1)) = [0, 1]"
    using single_flight_within_ttl [of 300002 s1 300002 "[]" local_config 1] pending over fresh1
    by (simp add: nxt1 fly1)
  from a b show ?thesis
    unfolding s1_def by simp
qed

text \<open>
  Claim C2, as it is stated, fails: a fetch is started at time 1 and has not settled;
  a second \<open>load()\<close> call at time 300002 starts a second fetch and receives another task,
  and both fetches are in flight.
\<close>

theorem single_flight_counterexample:
  "fst (load_calls local_config [(1, 1), (300002, 300002)] (init empty_model))
     = [Some 0, Some 1]
   \<and> fetches (snd (load_calls local_config [(1, 1), (300002, 300002)] (init empty_model))) = 2
   \<and> in_flight (snd (load_calls local_config [(1, 1), (300002, 300002)] (init empty_model)))
     = [0, 1]"
  by (simp add: load_def Let_def init_def CACHE_TTL_def fetches_def in_flight_def
      getAuthority_def local_config_def)

section \<open>The access token\<close>

lemma tokenGetter_started:
  "fst (tokenGetter cfg n T a) = Exchanging T' \<Longrightarrow>
   truthy (grantToken cfg) \<and> T' = T
   \<and> (\<forall>c. cachedToken a = Some c \<longrightarrow> expiresAt c \<le> n)
   \<and> snd (tokenGetter cfg n T a) = a\<lparr>posts := Suc (posts a)\<rparr>"
  by (auto simp: tokenGetter_def tokenGetter_else_def split: option.splits if_splits)

lemma exchange_settle_ok:
  "exchange_settle fl T (Response 200 info) a =
     (Inr (access_token info),
      a\<lparr>cachedToken := Some \<lparr>token = access_token info,
                               expiresAt = fl (T + fl (expires_in info * 1000))\<rparr>\<rparr>)"
  by (simp add: exchange_settle_def exchangeToken_result_def exchangeToken_then_def
      tokenGetter_then_def)

lemma fl_example_60000: "fl_example 60000 = 60000"
  by (simp add: fl_example_def round_even_def)

lemma fl_example_sum: "fl_example (1 / 2 ^ 40 + 60000) = 60000"
  by (simp add: fl_example_def round_even_def)

text \<open>
  Claim C3. An exchange that \<open>getToken()\<close> started with the reading \<open>T\<close> of the monotonic
  clock, taken before the request was sent, and that succeeds with a lifetime of
  \<open>expires_in\<close> seconds, stores the token with \<open>expiresAt = T + expires_in * 1000\<close>,
  computed as the source computes it, in doubles: the product is rounded, then the sum.
  After that, a call at a time before \<open>expiresAt\<close> resolves to the cached token and sends
  no request, and a call at \<open>expiresAt\<close> or later starts a new exchange.
\<close>

theorem token_expiry:
  assumes started: "fst (tokenGetter cfg n T a0) = Exchanging T"
  shows "exchange_settle fl T (Response 200 info) a =
      (Inr (access_token info),
       a\<lparr>cachedToken := Some \<lparr>token = access_token info,
                                expiresAt = fl (T + fl (expires_in info * 1000))\<rparr>\<rparr>)
    \<and> (t < fl (T + fl (expires_in info * 1000)) \<longrightarrow>
         tokenGetter cfg t t' (snd (exchange_settle fl T (Response 200 info) a))
           = (Resolved (Some (access_token info)),
              snd (exchange_settle fl T (Response 200 info) a)))
    \<and> (fl (T + fl (expires_in info * 1000)) \<le> t \<longrightarrow>
         tokenGetter cfg t t' (snd (exchange_settle fl T (Response 200 info) a))
           = (Exchanging t',
              (snd (exchange_settle fl T (Response 200 info) a))
                \<lparr>posts := Suc (posts (snd (exchange_settle fl T (Response 200 info) a)))\<rparr>))"
proof -
  from started have grant: "truthy (grantToken cfg)"
    by (simp add: tokenGetter_started)
  show ?thesis
    using grant by (simp add: exchange_settle_ok tokenGetter_def tokenGetter_else_def)
qed

text \<open>
  The exchange starts at \<open>T = 1 / 2 ^ 40\<close> ms and the token lives 60 seconds: the sum
  \<open>T + 60000\<close> is no double, the stored \<open>expiresAt\<close> is 60000, and the call at 60000
  starts a new exchange.
\<close>

theorem token_expiry_witness:
  "exchange_settle fl_example (1 / 2 ^ 40) (Response 200 minute_token) auth_init
     = (Inr ''abc'', \<lparr>cachedToken = Some \<lparr>token = ''abc'', expiresAt = 60000\<rparr>, posts = 0\<rparr>)
   \<and> tokenGetter publisher_config 59999 59999
        \<lparr>cachedToken = Some \<lparr>token = ''abc'', expiresAt = 60000\<rparr>, posts = 0\<rparr>
     = (Resolved (Some ''abc''),
        \<lparr>cachedToken = Some \<lparr>token = ''abc'', expiresAt = 60000\<rparr>, posts = 0\<rparr>)
   \<and> tokenGetter publisher_config 60000 60000
        \<lparr>cachedToken = Some \<lparr>token = ''abc'', expiresAt = 60000\<rparr>, posts = 0\<rparr>
     = (Exchanging 60000,
        \<lparr>cachedToken = Some \<lparr>token = ''abc'', expiresAt = 60000\<rparr>, posts = 1\<rparr>)"
proof -
  have started: "fst (tokenGetter publisher_config 0 (1 / 2 ^ 40) auth_init)
      = Exchanging (1 / 2 ^ 40)"
    by (simp add: tokenGetter_def tokenGetter_else_def grantToken_def publisher_config_def
        auth_init_def)
  have expiry: "fl_example (1 / 2 ^ 40 + fl_example (expires_in minute_token * 1000)) = 60000"
    using fl_example_sum by (simp add: minute_token_def fl_example_60000)
  have tok: "access_token minute_token = ''abc''"
    by (simp add: minute_token_def)
  have settle: "snd (exchange_settle fl_example (1 / 2 ^ 40) (Response 200 minute_token) auth_init)
      = \<lparr>cachedToken = Some \<lparr>token = ''abc'', expiresAt = 60000\<rparr>, posts = 0\<rparr>"
    unfolding exchange_settle_ok expiry tok by (simp add: auth_init_def)
  note early = token_expiry [OF started, of fl_example minute_token auth_init 59999 59999]
  note late = token_expiry [OF started, of fl_example minute_token auth_init 60000 60000]
  have stored: "exchange_settle fl_example (1 / 2 ^ 40) (Response 200 minute_token) auth_init
      = (Inr ''abc'', \<lparr>cachedToken = Some \<lparr>token = ''abc'', expiresAt = 60000\<rparr>, posts = 0\<rparr>)"
    using early unfolding expiry tok by (simp add: auth_init_def)
  have cached: "tokenGetter publisher_config 59999 59999
        \<lparr>cachedToken = Some \<lparr>token = ''abc'', expiresAt = 60000\<rparr>, posts = 0\<rparr>
     = (Resolved (Some ''abc''),
        \<lparr>cachedToken = Some \<lparr>token = ''abc'', expiresAt = 60000\<rparr>, posts = 0\<rparr>)"
    using early unfolding settle expiry tok by simp
  have expired: "tokenGetter publisher_config 60000 60000
        \<lparr>cachedToken = Some \<lparr>token = ''abc'', expiresAt = 60000\<rparr>, posts = 0\<rparr>
     = (Exchanging 60000,
        \<lparr>cachedToken = Some \<lparr>token = ''abc'', expiresAt = 60000\<rparr>, posts = 1\<rparr>)"
    using late unfolding settle expiry tok by simp
  from stored cached expired show ?thesis
    by simp
qed

text \<open>
  Claim C9. When the request of the exchange is rejected, or answered with a status other
  than 200, the caller gets the error and the state of the service is what it was: the
  cached token is untouched and no further request is sent. If nothing else happened since
  \<open>getToken()\<close> started that exchange, a call at the same or a later time starts a new
  exchange.
\<close>

theorem exchange_failure:
  "exchange_settle fl T (Rejected err) a = (Inl err, a)
   \<and> (status \<noteq> 200 \<longrightarrow>
        exchange_settle fl T (Response status data) a
          = (Inl (Error ''Failed to retrieve access token''), a))
   \<and> (fst (tokenGetter cfg n T a0) = Exchanging T
        \<and> exchangeToken_result res = Inl err' \<and> n \<le> t \<longrightarrow>
        tokenGetter cfg t t' (snd (exchange_settle fl T res (snd (tokenGetter cfg n T a0))))
          = (Exchanging t',
             (snd (tokenGetter cfg n T a0))\<lparr>posts := Suc (posts (snd (tokenGetter cfg n T a0)))\<rparr>))"
proof -
  have rejected: "exchange_settle fl T (Rejected err) a = (Inl err, a)"
    by (simp add: exchange_settle_def exchangeToken_result_def)
  have refused: "exchange_settle fl T (Response status data) a
      = (Inl (Error ''Failed to retrieve access token''), a)" if "status \<noteq> 200"
    using that by (simp add: exchange_settle_def exchangeToken_result_def exchangeToken_then_def)
  have again: "tokenGetter cfg t t' (snd (exchange_settle fl T res (snd (tokenGetter cfg n T a0))))
      = (Exchanging t',
         (snd (tokenGetter cfg n T a0))\<lparr>posts := Suc (posts (snd (tokenGetter cfg n T a0)))\<rparr>)"
    if started: "fst (tokenGetter cfg n T a0) = Exchanging T"
      and failed: "exchangeToken_result res = Inl err'" and later: "n \<le> t"
  proof -
    from started have grant: "truthy (grantToken cfg)"
      and old: "\<forall>c. cachedToken a0 = Some c \<longrightarrow> expiresAt c \<le> n"
      and a1: "snd (tokenGetter cfg n T a0) = a0\<lparr>posts := Suc (posts a0)\<rparr>"
      using tokenGetter_started [of cfg n T a0 T] by simp_all
    from failed have same: "snd (exchange_settle fl T res (a0\<lparr>posts := Suc (posts a0)\<rparr>))
        = a0\<lparr>posts := Suc (posts a0)\<rparr>"
      by (simp add: exchange_settle_def)
    from old later have "\<not> t < expiresAt c" if "cachedToken a0 = Some c" for c
      using that by fastforce
    then have "tokenGetter cfg t t' (a0\<lparr>posts := Suc (posts a0)\<rparr>)
        = (Exchanging t', a0\<lparr>posts := Suc (posts a0), posts := Suc (posts (a0\<lparr>posts := Suc (posts a0)\<rparr>))\<rparr>)"
      using grant by (simp add: tokenGetter_def tokenGetter_else_def split: option.splits)
    then show ?thesis
      unfolding a1 same by simp
  qed
  from rejected refused again show ?thesis
    by blast
qed

theorem exchange_failure_witness:
  "exchange_settle fl_example 5 (Rejected (HttpError 0)) auth_init = (Inl (HttpError 0), auth_init)
   \<and> exchange_settle fl_example 5 (Response 401 minute_token) auth_init
       = (Inl (Error ''Failed to retrieve access token''), auth_init)
   \<and> tokenGetter publisher_config 9 9
        (snd (exchange_settle fl_example 5 (Response 401 minute_token)
           (snd (tokenGetter publisher_config 5 5 auth_init))))
       = (Exchanging 9, \<lparr>cachedToken = None, posts = 2\<rparr>)"
proof -
  have started: "fst (tokenGetter publisher_config 5 5 auth_init) = Exchanging 5"
    by (simp add: tokenGetter_def tokenGetter_else_def grantToken_def publisher_config_def
        auth_init_def)
  have a1: "snd (tokenGetter publisher_config 5 5 auth_init) = \<lparr>cachedToken = None, posts = 1\<rparr>"
    by (simp add: tokenGetter_def tokenGetter_else_def grantToken_def publisher_config_def
        auth_init_def)
  have failed: "exchangeToken_result (Response 401 minute_token)
      = Inl (Error ''Failed to retrieve access token'')"
    by (simp add: exchangeToken_result_def exchangeToken_then_def)
  have status: "(401::int) \<noteq> 200"
    by simp
  have later: "(5::real) \<le> 9"
    by simp
  show ?thesis
    using exchange_failure [of fl_example 5 "HttpError 0" auth_init 401 minute_token
        publisher_config 5 auth_init "Response 401 minute_token"
        "Error ''Failed to retrieve access token''" 9 9]
      started failed status later
    by (simp add: a1)
qed

section \<open>The events of \<open>update\<close>\<close>

lemma update_effects:
  "effects (snd (update cfg now model s)) =
     effects s
     @ (if userid model \<noteq> userid (session s)
        then user_changed_effects cfg (\<not> truthy (csrf (session s))) model else [])
     @ (if groups model \<noteq> groups (session s)
        then [GroupsChanged (\<not> truthy (csrf (session s)))] else [])"
  by (simp add: update_def updateSession_def angular_equals_def Let_def)

lemma emitted_update:
  "emitted s (snd (update cfg now model s)) =
     (if userid model \<noteq> userid (session s)
      then user_changed_effects cfg (\<not> truthy (csrf (session s))) model else [])
     @ (if groups model \<noteq> groups (session s)
        then [GroupsChanged (\<not> truthy (csrf (session s)))] else [])"
  unfolding emitted_def update_effects by simp

text \<open>
  Claim C4. When \<open>model.userid\<close> differs from the stored \<open>userid\<close>, \<open>update(model)\<close>
  emits exactly one \<open>UserChanged\<close> event, with \<open>initialLoad\<close> true iff the previous
  session had no CSRF token and with the new \<open>userid\<close>; \<open>auth.clearCache\<close> is called
  iff no authority is configured; the user given to the error reports is the new
  \<open>userid\<close>, or none when it is absent. When \<open>userid\<close> is unchanged, no \<open>UserChanged\<close>
  event is emitted. Absent is what the source tests: \<open>undefined\<close>, \<open>null\<close> or the
  empty string.
\<close>

theorem user_changed_event:
  "(userid model \<noteq> userid (session s) \<longrightarrow>
      filter is_user_changed (emitted s (snd (update cfg now model s)))
        = [UserChanged (\<not> truthy (csrf (session s))) (userid model)]
      \<and> (ClearCache \<in> set (emitted s (snd (update cfg now model s)))
           \<longleftrightarrow> \<not> truthy (getAuthority cfg))
      \<and> (SetUserInfo (Some (userid model)) \<in> set (emitted s (snd (update cfg now model s)))
           \<longleftrightarrow> truthy (userid model))
      \<and> (SetUserInfo None \<in> set (emitted s (snd (update cfg now model s)))
           \<longleftrightarrow> \<not> truthy (userid model)))
   \<and> (userid model = userid (session s) \<longrightarrow>
      filter is_user_changed (emitted s (snd (update cfg now model s))) = [])"
  by (simp add: emitted_update user_changed_effects_def)

theorem user_changed_event_witness:
  "emitted (init empty_model) (snd (update local_config 7 u1_model (init empty_model)))
     = [ClearCache, UserChanged True (Str ''acct:u1''), SetUserInfo (Some (Str ''acct:u1'')),
        GroupsChanged True]
   \<and> filter is_user_changed
        (emitted (init u1_model) (snd (update local_config 7 u1_model (init u1_model)))) = []"
proof -
  have changed: "userid u1_model \<noteq> userid (session (init empty_model))"
    by (simp add: u1_model_def init_def empty_model_def)
  have same: "userid u1_model = userid (session (init u1_model))"
    by (simp add: init_def)
  have log: "emitted (init empty_model) (snd (update local_config 7 u1_model (init empty_model)))
     = [ClearCache, UserChanged True (Str ''acct:u1''), SetUserInfo (Some (Str ''acct:u1'')),
        GroupsChanged True]"
    using changed user_changed_event [of u1_model "init empty_model" local_config 7]
    by (simp add: emitted_update user_changed_effects_def u1_model_def init_def empty_model_def
        getAuthority_def local_config_def)
  have none: "filter is_user_changed
        (emitted (init u1_model) (snd (update local_config 7 u1_model (init u1_model)))) = []"
    using same user_changed_event [of u1_model "init u1_model" local_config 7]
    by simp
  from log none show ?thesis by simp
qed

lemma group_a_reordered: "group_a' = group_a"
proof -
  have "fmap_of_list [(''name'', JStr ''One''), (''id'', JStr ''g1'')]
      = fmap_of_list [(''id'', JStr ''g1''), (''name'', JStr ''One'')]"
    by (rule fmap_ext) auto
  then show ?thesis
    by (simp add: group_a_def group_a'_def)
qed

text \<open>
  Claim C8. \<open>update(model)\<close> emits a \<open>GroupsChanged\<close> event iff \<open>model.groups\<close> differs
  from the stored groups as a value, sequences compared in order: equal groups emit
  none, whatever the order of the keys inside a group, and the same elements in another
  order emit one.
\<close>

theorem groups_changed_event:
  "(filter is_groups_changed (emitted s (snd (update cfg now model s))) \<noteq> []
      \<longleftrightarrow> groups model \<noteq> groups (session s))
   \<and> (groups model = groups (session s) \<longrightarrow>
        filter is_groups_changed (emitted s (snd (update cfg now model s))) = [])
   \<and> (groups model = Some (JArr xs) \<and> groups (session s) = Some (JArr ys)
        \<and> mset xs = mset ys \<and> xs \<noteq> ys \<longrightarrow>
        filter is_groups_changed (emitted s (snd (update cfg now model s)))
          = [GroupsChanged (\<not> truthy (csrf (session s)))])"
proof -
  have user: "filter is_groups_changed (user_changed_effects cfg i model) = []" for i
    by (simp add: user_changed_effects_def)
  show ?thesis
    by (auto simp: emitted_update user)
qed

theorem groups_changed_event_witness:
  "filter is_groups_changed
     (emitted (init u1_model) (snd (update local_config 7 u1_model (init u1_model)))) = []
   \<and> filter is_groups_changed
       (emitted (init (u1_model\<lparr>groups := Some (JArr [group_a])\<rparr>))
          (snd (update local_config 7 (u1_model\<lparr>groups := Some (JArr [group_a'])\<rparr>)
                  (init (u1_model\<lparr>groups := Some (JArr [group_a])\<rparr>))))) = []
   \<and> filter is_groups_changed
       (emitted (init u1_model)
          (snd (update local_config 7
                  (u1_model\<lparr>groups := Some (JArr [JStr ''g2'', JStr ''g1''])\<rparr>)
                  (init u1_model))))
     = [GroupsChanged False]"
proof -
  have same: "groups u1_model = groups (session (init u1_model))"
    by (simp add: init_def)
  have none: "filter is_groups_changed
     (emitted (init u1_model) (snd (update local_config 7 u1_model (init u1_model)))) = []"
    using same groups_changed_event [of "init u1_model" local_config 7 u1_model]
    by simp
  have keys: "groups (u1_model\<lparr>groups := Some (JArr [group_a'])\<rparr>)
      = groups (session (init (u1_model\<lparr>groups := Some (JArr [group_a])\<rparr>)))"
    by (simp add: init_def group_a_reordered)
  have reordered: "filter is_groups_changed
       (emitted (init (u1_model\<lparr>groups := Some (JArr [group_a])\<rparr>))
          (snd (update local_config 7 (u1_model\<lparr>groups := Some (JArr [group_a'])\<rparr>)
                  (init (u1_model\<lparr>groups := Some (JArr [group_a])\<rparr>))))) = []"
    using keys groups_changed_event [of "init (u1_model\<lparr>groups := Some (JArr [group_a])\<rparr>)"
        local_config 7 "u1_model\<lparr>groups := Some (JArr [group_a'])\<rparr>"]
    by blast
  have new: "groups (u1_model\<lparr>groups := Some (JArr [JStr ''g2'', JStr ''g1''])\<rparr>)
      = Some (JArr [JStr ''g2'', JStr ''g1''])"
    by simp
  have old: "groups (session (init u1_model)) = Some (JArr [JStr ''g1'', JStr ''g2''])"
    by (simp add: init_def u1_model_def)
  have perm: "mset [JStr ''g2'', JStr ''g1''] = mset [JStr ''g1'', JStr ''g2'']"
    by simp
  have differ: "[JStr ''g2'', JStr ''g1''] \<noteq> [JStr ''g1'', JStr ''g2'']"
    by simp
  have tok: "truthy (csrf (session (init u1_model)))"
    by (simp add: init_def u1_model_def)
  have one: "filter is_groups_changed
       (emitted (init u1_model)
          (snd (update local_config 7
                  (u1_model\<lparr>groups := Some (JArr [JStr ''g2'', JStr ''g1''])\<rparr>)
                  (init u1_model))))
     = [GroupsChanged False]"
    using groups_changed_event [of "init u1_model" local_config 7
        "u1_model\<lparr>groups := Some (JArr [JStr ''g2'', JStr ''g1''])\<rparr>"
        "[JStr ''g2'', JStr ''g1'']" "[JStr ''g1'', JStr ''g2'']"]
      new old perm differ tok
    by simp
  from none reordered one show ?thesis by simp
qed

section \<open>Processing a response\<close>

lemma fire_msgs_effects:
  "fire_msgs k ms s = s\<lparr>effects := effects s @ map (Flash k) ms\<rparr>"
  by (induction ms arbitrary: s) simp_all

lemma fire_flash_effects:
  "fire_flash fl s =
     s\<lparr>effects := effects s @ concat (map (\<lambda>entry. map (Flash (fst entry)) (snd entry)) fl)\<rparr>"
  by (induction fl arbitrary: s) (simp_all add: fire_msgs_effects)

lemma update_fst: "fst (update cfg now model s) = model"
  by (simp add: update_def Let_def)

text \<open>
  Claim C7. For a status below 200 or from 500 on, \<open>process\<close> returns \<open>null\<close> and does
  nothing. For a status in \<open>[200, 500)\<close> the model is the field \<open>model\<close> of the data, or
  the empty object when that is absent, with \<open>errors\<close> and \<open>reason\<close> of the data set on
  it when they are present; every message of every flash kind is sent to the notices, kind
  by kind and in the order of the messages; then the model goes through \<open>update\<close>, and it
  is the result.
\<close>

theorem process_response:
  "(status < 200 \<or> 500 \<le> status \<longrightarrow> process cfg data status now s = (None, s))
   \<and> (200 \<le> status \<and> status < 500 \<longrightarrow>
        process cfg data status now s
          = (Some (lift_model data),
             snd (update cfg now (lift_model data)
                    (s\<lparr>effects := effects s
                       @ concat (map (\<lambda>entry. map (Flash (fst entry)) (snd entry))
                                   (data_flash data))\<rparr>))))
   \<and> lift_model data =
        (case data_model data of Some m \<Rightarrow> m | None \<Rightarrow> empty_model)
          \<lparr>errors := (case data_errors data of
                        Some e \<Rightarrow> Some e
                      | None \<Rightarrow> errors (case data_model data of Some m \<Rightarrow> m | None \<Rightarrow> empty_model)),
           reason := (case data_reason data of
                        Some r \<Rightarrow> Some r
                      | None \<Rightarrow> reason (case data_model data of Some m \<Rightarrow> m | None \<Rightarrow> empty_model))\<rparr>"
proof -
  have lifted: "lift_model data =
        (case data_model data of Some m \<Rightarrow> m | None \<Rightarrow> empty_model)
          \<lparr>errors := (case data_errors data of
                        Some e \<Rightarrow> Some e
                      | None \<Rightarrow> errors (case data_model data of Some m \<Rightarrow> m | None \<Rightarrow> empty_model)),
           reason := (case data_reason data of
                        Some r \<Rightarrow> Some r
                      | None \<Rightarrow> reason (case data_model data of Some m \<Rightarrow> m | None \<Rightarrow> empty_model))\<rparr>"
    by (simp add: lift_model_def Let_def split: option.splits)
  have refused: "process cfg data status now s = (None, s)" if "status < 200 \<or> 500 \<le> status"
    using that by (auto simp: process_def)
  have parsed: "process cfg data status now s
          = (Some (lift_model data),
             snd (update cfg now (lift_model data)
                    (s\<lparr>effects := effects s
                       @ concat (map (\<lambda>entry. map (Flash (fst entry)) (snd entry))
                                   (data_flash data))\<rparr>)))"
    if "200 \<le> status" "status < 500"
    using that by (simp add: process_def Let_def update_fst fire_flash_effects)
  from lifted refused parsed show ?thesis
    by blast
qed

theorem process_response_witness:
  "process local_config flash_response 502 7 (init empty_model) = (None, init empty_model)
   \<and> fst (process local_config flash_response 200 7 (init empty_model))
       = Some (empty_model\<lparr>userid := Str ''u1''\<rparr>)
   \<and> effects (snd (process local_config login_failed_response 400 7 (init empty_model)))
       = [Flash ''error'' (JStr ''a''), Flash ''error'' (JStr ''b''), Flash ''info'' (JStr ''c'')]
   \<and> fst (process local_config login_failed_response 400 7 (init empty_model))
       = Some (empty_model\<lparr>errors := Some (JObj (fmap_of_list [(''password'', JStr ''Wrong password'')])),
                           reason := Some (JStr ''Invalid'')\<rparr>)"
proof -
  have high: "(502::int) < 200 \<or> 500 \<le> (502::int)"
    by simp
  have ok: "(200::int) \<le> 200 \<and> (200::int) < 500"
    by simp
  have client: "(200::int) \<le> 400 \<and> (400::int) < 500"
    by simp
  have a: "process local_config flash_response 502 7 (init empty_model) = (None, init empty_model)"
    using high process_response [of 502 local_config flash_response 7 "init empty_model"]
    by simp
  have b: "fst (process local_config flash_response 200 7 (init empty_model))
       = Some (empty_model\<lparr>userid := Str ''u1''\<rparr>)"
    using ok process_response [of 200 local_config flash_response 7 "init empty_model"]
    by (simp add: flash_response_def)
  have c: "process local_config login_failed_response 400 7 (init empty_model)
      = (Some (lift_model login_failed_response),
         snd (update local_config 7 (lift_model login_failed_response)
                ((init empty_model)\<lparr>effects := effects (init empty_model)
                   @ concat (map (\<lambda>entry. map (Flash (fst entry)) (snd entry))
                               (data_flash login_failed_response))\<rparr>)))"
    using client process_response [of 400 local_config login_failed_response 7 "init empty_model"]
    by simp
  have m: "lift_model login_failed_response
      = empty_model\<lparr>errors := Some (JObj (fmap_of_list [(''password'', JStr ''Wrong password'')])),
                    reason := Some (JStr ''Invalid'')\<rparr>"
    using process_response [of 400 local_config login_failed_response 7 "init empty_model"]
    by (simp add: login_failed_response_def)
  have d: "effects (snd (process local_config login_failed_response 400 7 (init empty_model)))
       = [Flash ''error'' (JStr ''a''), Flash ''error'' (JStr ''b''), Flash ''info'' (JStr ''c'')]"
    unfolding c m
    by (simp add: update_effects init_def empty_model_def login_failed_response_def)
  from a b c d m show ?thesis
    by simp
qed

section \<open>Failures of \<open>load\<close> and \<open>logout\<close>\<close>


lemma update_lastLoad: "lastLoad (snd (update cfg now model s)) = Some (next_task s)"
  by (simp add: update_def updateSession_def Let_def)



lemma process_lastLoadTime:
  "lastLoadTime (snd (process cfg data status now s)) =
     (if 200 \<le> status \<and> status < 500 then TNum now else lastLoadTime s)"
  by (simp add: process_def Let_def update_lastLoadTime)

lemma process_lastLoad:
  "lastLoad (snd (process cfg data status now s)) =
     (if 200 \<le> status \<and> status < 500 then Some (next_task s) else lastLoad s)"
  by (simp add: process_def Let_def update_lastLoad fire_flash_effects)







text \<open>
  Claim C6, as the source has it. When the request of \<open>logout()\<close> fails, the notice
  \<open>Log out failed\<close> is shown, after the notices of the response, and the error is
  rethrown. Nothing clears the timestamp of the cache: after a failure without a response,
  or with a status below 200 or from 500 on, timestamp and cached task are what they
  were; after a response with a status in \<open>[200, 500)\<close>, which is processed first,
  \<open>update\<close> has set the timestamp to the current time and the cached task to a new one
  that holds the model of the response. On success \<open>auth.clearCache\<close> is called.
\<close>

theorem logout_outcomes:
  "fst (logout_fails cfg data status now err s) = Inl err
   \<and> emitted (snd (process cfg data status now s)) (snd (logout_fails cfg data status now err s))
       = [Flash ''error'' (JStr ''Log out failed'')]
   \<and> (status < 200 \<or> 500 \<le> status \<longrightarrow>
        lastLoadTime (snd (logout_fails cfg data status now err s)) = lastLoadTime s
        \<and> lastLoad (snd (logout_fails cfg data status now err s)) = lastLoad s)
   \<and> (200 \<le> status \<and> status < 500 \<longrightarrow>
        lastLoadTime (snd (logout_fails cfg data status now err s)) = TNum now
        \<and> lastLoad (snd (logout_fails cfg data status now err s)) = Some (next_task s)
        \<and> settled (snd (logout_fails cfg data status now err s)) (next_task s)
            = Some (Inr (lift_model data)))
   \<and> emitted (snd (process cfg data status now s)) (logout_succeeds cfg data status now s)
       = [ClearCache]"
proof -
  have thrown: "fst (logout_fails cfg data status now err s) = Inl err"
    by (simp add: logout_fails_def logout_catch_def)
  have notice: "emitted (snd (process cfg data status now s))
      (snd (logout_fails cfg data status now err s)) = [Flash ''error'' (JStr ''Log out failed'')]"
    by (simp add: logout_fails_def logout_catch_def emitted_def)
  have cleared: "emitted (snd (process cfg data status now s))
      (logout_succeeds cfg data status now s) = [ClearCache]"
    by (simp add: logout_succeeds_def logout_then_def emitted_def)
  have time: "lastLoadTime (snd (logout_fails cfg data status now err s))
      = lastLoadTime (snd (process cfg data status now s))"
    and task: "lastLoad (snd (logout_fails cfg data status now err s))
      = lastLoad (snd (process cfg data status now s))"
    and outcome: "settled (snd (logout_fails cfg data status now err s))
      = settled (snd (process cfg data status now s))"
    by (simp_all add: logout_fails_def logout_catch_def)
  have model: "settled (snd (process cfg data status now s)) (next_task s)
      = Some (Inr (lift_model data))" if "200 \<le> status" "status < 500"
    using that
    by (simp add: process_def Let_def update_def updateSession_def fire_flash_effects)
  from thrown notice cleared model show ?thesis
    by (auto simp: time task outcome process_lastLoadTime process_lastLoad)
qed

theorem logout_outcomes_witness:
  "lastLoadTime (snd (logout_fails local_config flash_response 503 2000 (HttpError 503)
      warm_state)) = TNum 1000
   \<and> lastLoad (snd (logout_fails local_config flash_response 503 2000 (HttpError 503)
      warm_state)) = Some 0
   \<and> lastLoadTime (snd (logout_fails local_config flash_response 403 2000 (HttpError 403)
      warm_state)) = TNum 2000
   \<and> lastLoad (snd (logout_fails local_config flash_response 403 2000 (HttpError 403)
      warm_state)) = Some 1"
proof -
  have high: "(503::int) < 200 \<or> 500 \<le> (503::int)"
    by simp
  have client: "(200::int) \<le> 403 \<and> (403::int) < 500"
    by simp
  have warm: "lastLoadTime warm_state = TNum 1000" "lastLoad warm_state = Some 0"
    "next_task warm_state = 1"
    by (simp_all add: warm_state_def init_def)
  have a: "lastLoadTime (snd (logout_fails local_config flash_response 503 2000 (HttpError 503)
        warm_state)) = TNum 1000
      \<and> lastLoad (snd (logout_fails local_config flash_response 503 2000 (HttpError 503)
        warm_state)) = Some 0"
    using high logout_outcomes [of local_config flash_response 503 2000 "HttpError 503" warm_state]
    by (simp add: warm)
  have b: "lastLoadTime (snd (logout_fails local_config flash_response 403 2000 (HttpError 403)
        warm_state)) = TNum 2000
      \<and> lastLoad (snd (logout_fails local_config flash_response 403 2000 (HttpError 403)
        warm_state)) = Some 1"
    using client logout_outcomes [of local_config flash_response 403 2000 "HttpError 403" warm_state]
    by (simp add: warm)
  from a b show ?thesis by simp
qed

text \<open>
  Claim C6, as it is stated, fails: the session was loaded at time 1000, the request of
  \<open>logout()\<close> is answered with status 503 at time 2000. The response is processed, the
  handler of the failure runs; the timestamp still is 1000, and a \<open>load()\<close> call at time
  2001 returns the cached task 0 and starts no fetch.
\<close>

theorem logout_failure_counterexample:
  "lastLoadTime
     (run local_config [Process flash_response 503 2000, LogoutCatch (HttpError 503)] warm_state)
     = TNum 1000
   \<and> fst (load local_config 2001 2001
        (run local_config [Process flash_response 503 2000, LogoutCatch (HttpError 503)]
           warm_state)) = Some 0
   \<and> fetches (snd (load local_config 2001 2001
        (run local_config [Process flash_response 503 2000, LogoutCatch (HttpError 503)]
           warm_state))) = 0"
  by (simp add: process_def logout_catch_def warm_state_def init_def load_def CACHE_TTL_def
      fetches_def)

section \<open>The CSRF header\<close>

lemma update_headers:
  "headers (snd (update cfg now model s)) =
     (if truthy (csrf model) then (headers s)(xsrfHeaderName cfg \<mapsto> csrf model)
      else headers s)"
  by (simp add: update_def updateSession_def Let_def)

lemma load_headers: "headers (snd (load cfg now now' s)) = headers s"
  by (simp add: load_def Let_def)

lemma process_headers:
  "headers (snd (process cfg data status now s)) =
     (if 200 \<le> status \<and> status < 500 \<and> truthy (csrf (lift_model data))
      then (headers s)(xsrfHeaderName cfg \<mapsto> csrf (lift_model data))
      else headers s)"
  by (simp add: process_def Let_def update_headers fire_flash_effects)

lemma step_keeps_header:
  assumes "headers s k = Some v" and "truthy v"
  shows "\<exists>v'. headers (step cfg x s) k = Some v' \<and> truthy v'"
proof (cases x)
  case (Load now now')
  with assms show ?thesis by (simp add: load_headers)
next
  case (LoadThen p sess now)
  with assms show ?thesis by (simp add: load_then_def)
next
  case (LoadCatch p err)
  with assms show ?thesis by (simp add: load_catch_def)
next
  case (Update now model)
  with assms show ?thesis by (simp add: update_headers)
next
  case (Process data status now)
  with assms show ?thesis by (simp add: process_headers)
next
  case LogoutThen
  with assms show ?thesis by (simp add: logout_then_def)
next
  case (LogoutCatch err)
  with assms show ?thesis by (simp add: logout_catch_def)
qed

lemma run_keeps_header:
  "headers s k = Some v \<Longrightarrow> truthy v
   \<Longrightarrow> \<exists>v'. headers (run cfg ops s) k = Some v' \<and> truthy v'"
proof (induction ops arbitrary: s v)
  case Nil
  then show ?case by simp
next
  case (Cons x xs)
  from step_keeps_header [OF Cons.prems, of cfg x]
  obtain w where "headers (step cfg x s) k = Some w" and "truthy w"
    by blast
  then show ?case
    using Cons.IH by simp
qed

text \<open>
  Claim C10. \<open>update(model)\<close> changes the header map only when \<open>model.csrf\<close> is
  present, and then it sets the entry of the CSRF header and nothing else; when
  \<open>model.csrf\<close> is absent the map stays as it is. No operation of the service removes
  the entry: once a token is set, the CSRF header carries a token after any sequence of
  calls and handlers, \<open>logout\<close> and updates without a token among them.
\<close>

theorem csrf_header_frame:
  "(truthy (csrf model) \<longrightarrow>
      headers (snd (update cfg now model s)) = (headers s)(xsrfHeaderName cfg \<mapsto> csrf model))
   \<and> (\<not> truthy (csrf model) \<longrightarrow> headers (snd (update cfg now model s)) = headers s)
   \<and> (headers s (xsrfHeaderName cfg) = Some v \<and> truthy v \<longrightarrow>
        (\<exists>v'. headers (run cfg ops s) (xsrfHeaderName cfg) = Some v' \<and> truthy v'))"
  using run_keeps_header [of s "xsrfHeaderName cfg" v cfg ops]
  by (simp add: update_headers)

theorem csrf_header_frame_witness:
  "headers u1_state = [''X-CSRF-Token'' \<mapsto> Str ''t0k3n'']
   \<and> headers (snd (update local_config 8 empty_model u1_state)) = headers u1_state
   \<and> (\<exists>v'. headers (run local_config
                [Update 8 empty_model, Process flash_response 200 9, LogoutThen,
                 LogoutCatch (HttpError 0), Load 10 10, LoadCatch 3 (HttpError 0)]
                u1_state) ''X-CSRF-Token'' = Some v' \<and> truthy v')"
proof -
  have tok: "truthy (csrf u1_model)"
    by (simp add: u1_model_def)
  have none: "\<not> truthy (csrf empty_model)"
    by (simp add: empty_model_def)
  have name: "xsrfHeaderName local_config = ''X-CSRF-Token''"
    by (simp add: local_config_def)
  have a: "headers u1_state = [''X-CSRF-Token'' \<mapsto> Str ''t0k3n'']"
    using tok csrf_header_frame [of u1_model local_config 7 "init empty_model"]
    unfolding u1_state_def name
    by (simp add: init_def u1_model_def)
  have b: "headers (snd (update local_config 8 empty_model u1_state)) = headers u1_state"
    using none csrf_header_frame [of empty_model local_config 8 u1_state]
    by simp
  have set: "headers u1_state (xsrfHeaderName local_config) = Some (Str ''t0k3n'')
      \<and> truthy (Str ''t0k3n'')"
    by (simp add: a name)
  have c: "\<exists>v'. headers (run local_config
                [Update 8 empty_model, Process flash_response 200 9, LogoutThen,
                 LogoutCatch (HttpError 0), Load 10 10, LoadCatch 3 (HttpError 0)]
                u1_state) ''X-CSRF-Token'' = Some v' \<and> truthy v'"
    using set csrf_header_frame [of empty_model local_config 8 u1_state "Str ''t0k3n''"
        "[Update 8 empty_model, Process flash_response 200 9, LogoutThen,
          LogoutCatch (HttpError 0), Load 10 10, LoadCatch 3 (HttpError 0)]"]
    unfolding name by blast
  from a b c show ?thesis by blast
qed

end
